theory Spec2Isabelle
  imports Complex_Main
begin

section \<open>Gameplay logic of AdvancedSystems.cpp\<close>

subsection \<open>The type float\<close>

text \<open>
  The source computes on C++ \<open>float\<close> values, which are IEEE 754 binary32 numbers. A
  value of the model is a finite number \<open>Fin x\<close>, an infinity or NaN. The two zeros are
  the one value \<open>Fin 0\<close>: they compare equal, and the functions modelled here divide
  only by the constant 100 and by a converted integer that is not zero, so no result
  depends on the sign of a zero. Every arithmetic operation rounds its exact result to
  binary32, to nearest with ties to even, one operation at a time (no wider
  intermediate precision and no fused multiply-add).

  The finite binary32 numbers are the multiples \<open>m * 2 powi e\<close> with \<open>\<bar>m\<bar> < 2 ^ 24\<close>
  and \<open>e\<close> from -149 to 104. \<open>ulp_exp x\<close> is the exponent of the spacing of these
  numbers around \<open>x\<close>: the least \<open>e\<close> from -149 with \<open>\<bar>x\<bar> < 2 powi (e + 24)\<close>, at most
  104.
\<close>

datatype float32 = Fin real | PInf | NInf | NaN

function ulp_exp_from :: "int \<Rightarrow> real \<Rightarrow> int" where
  "ulp_exp_from e a = (if e < 104 \<and> 2 powi (e + 24) \<le> a then ulp_exp_from (e + 1) a else e)"
  by pat_completeness auto
termination
  by (relation "measure (\<lambda>(e, a). nat (104 - e))") auto

declare ulp_exp_from.simps [simp del]

definition ulp_exp :: "real \<Rightarrow> int" where
  "ulp_exp x = ulp_exp_from (- 149) \<bar>x\<bar>"

text \<open>Rounding to the nearest integer, a tie to the even one.\<close>

definition round_even :: "real \<Rightarrow> int" where
  "round_even x =
     (let f = \<lfloor>x\<rfloor>; d = x - of_int f
      in if d < 1 / 2 then f else if 1 / 2 < d then f + 1 else if even f then f else f + 1)"

text \<open>
  Rounding a real number to binary32: to the nearest multiple of the spacing, and to an
  infinity when that multiple is \<open>2 powi 128\<close> or more in magnitude.
\<close>

definition rnd32 :: "real \<Rightarrow> float32" where
  "rnd32 x =
     (let e = ulp_exp x; y = of_int (round_even (x / 2 powi e)) * 2 powi e
      in if 2 powi 128 \<le> y then PInf else if y \<le> - (2 powi 128) then NInf else Fin y)"

text \<open>A finite value of the model is a binary32 number when rounding leaves it alone.\<close>

fun is_float32 :: "float32 \<Rightarrow> bool" where
  "is_float32 (Fin a) = (rnd32 a = Fin a)"
| "is_float32 _ = True"

text \<open>The conversion of an \<open>int\<close> to \<open>float\<close>.\<close>

definition float_of_int :: "int \<Rightarrow> float32" where
  "float_of_int n = rnd32 (of_int n)"

fun fneg :: "float32 \<Rightarrow> float32" where
  "fneg (Fin a) = Fin (- a)"
| "fneg PInf = NInf"
| "fneg NInf = PInf"
| "fneg NaN = NaN"

fun fadd :: "float32 \<Rightarrow> float32 \<Rightarrow> float32" where
  "fadd NaN _ = NaN"
| "fadd _ NaN = NaN"
| "fadd (Fin a) (Fin b) = rnd32 (a + b)"
| "fadd PInf NInf = NaN"
| "fadd NInf PInf = NaN"
| "fadd PInf _ = PInf"
| "fadd _ PInf = PInf"
| "fadd NInf _ = NInf"
| "fadd _ NInf = NInf"

definition fsub :: "float32 \<Rightarrow> float32 \<Rightarrow> float32" where
  "fsub x y = fadd x (fneg y)"

fun fmul :: "float32 \<Rightarrow> float32 \<Rightarrow> float32" where
  "fmul NaN _ = NaN"
| "fmul _ NaN = NaN"
| "fmul (Fin a) (Fin b) = rnd32 (a * b)"
| "fmul (Fin a) PInf = (if a = 0 then NaN else if 0 < a then PInf else NInf)"
| "fmul (Fin a) NInf = (if a = 0 then NaN else if 0 < a then NInf else PInf)"
| "fmul PInf (Fin b) = (if b = 0 then NaN else if 0 < b then PInf else NInf)"
| "fmul NInf (Fin b) = (if b = 0 then NaN else if 0 < b then NInf else PInf)"
| "fmul PInf PInf = PInf"
| "fmul PInf NInf = NInf"
| "fmul NInf PInf = NInf"
| "fmul NInf NInf = PInf"

text \<open>
  Division. A zero divisor is the positive zero, the only zero a divisor of the source
  can be (a converted integer 0).
\<close>

fun fdiv :: "float32 \<Rightarrow> float32 \<Rightarrow> float32" where
  "fdiv NaN _ = NaN"
| "fdiv _ NaN = NaN"
| "fdiv (Fin a) (Fin b) =
     (if b = 0 then (if a = 0 then NaN else if 0 < a then PInf else NInf) else rnd32 (a / b))"
| "fdiv (Fin a) PInf = Fin 0"
| "fdiv (Fin a) NInf = Fin 0"
| "fdiv PInf (Fin b) = (if 0 \<le> b then PInf else NInf)"
| "fdiv NInf (Fin b) = (if 0 \<le> b then NInf else PInf)"
| "fdiv PInf PInf = NaN"
| "fdiv PInf NInf = NaN"
| "fdiv NInf PInf = NaN"
| "fdiv NInf NInf = NaN"

text \<open>The comparisons \<open><\<close> and \<open><=\<close>: false as soon as an operand is NaN.\<close>

fun flt :: "float32 \<Rightarrow> float32 \<Rightarrow> bool" where
  "flt NaN _ = False"
| "flt _ NaN = False"
| "flt (Fin a) (Fin b) = (a < b)"
| "flt _ NInf = False"
| "flt PInf _ = False"
| "flt NInf _ = True"
| "flt _ PInf = True"

fun fle :: "float32 \<Rightarrow> float32 \<Rightarrow> bool" where
  "fle NaN _ = False"
| "fle _ NaN = False"
| "fle (Fin a) (Fin b) = (a \<le> b)"
| "fle NInf _ = True"
| "fle _ PInf = True"
| "fle _ NInf = False"
| "fle PInf _ = False"

text \<open>
  \<open>std::max(a, b)\<close> is \<open>(a < b) ? b : a\<close> and \<open>std::min(a, b)\<close> is \<open>(b < a) ? b : a\<close>.
\<close>

definition std_max :: "float32 \<Rightarrow> float32 \<Rightarrow> float32" where
  "std_max a b = (if flt a b then b else a)"

definition std_min :: "float32 \<Rightarrow> float32 \<Rightarrow> float32" where
  "std_min a b = (if flt b a then b else a)"

text \<open>
  A literal such as \<open>0.2f\<close> is the binary32 number nearest to the decimal, written
  \<open>rnd32 0.2\<close>. C++ \<open>int\<close> fields are only compared and converted, never added to,
  and are modelled as \<^typ>\<open>int\<close>. An array read is bounds-checked and yields \<open>None\<close>
  out of range.
\<close>

subsection \<open>EnemyAIBehavior\<close>

record EnemyAIBehavior =
  detectionRange :: float32
  attackRange :: float32
  currentHealth :: float32
  maxHealth :: float32

datatype AIState = IDLE | PATROL | CHASE | ATTACK | STUNNED | DEAD

text \<open>The constructor \<open>EnemyAIBehavior(float maxHp)\<close>.\<close>

definition EnemyAIBehavior_new :: "float32 \<Rightarrow> EnemyAIBehavior" where
  "EnemyAIBehavior_new maxHp =
     \<lparr>detectionRange = rnd32 15.0, attackRange = rnd32 3.0, currentHealth = maxHp,
      maxHealth = maxHp\<rparr>"

text \<open>
  \<open>DecideAction(distanceToPlayer, playerHealth, hasLineOfSight)\<close>: a chain of early
  returns. The parameter \<open>playerHealth\<close> is not read. In \<open>currentHealth <= 0\<close> the
  integer 0 is converted to \<open>float\<close>.
\<close>

definition DecideAction :: "EnemyAIBehavior \<Rightarrow> float32 \<Rightarrow> float32 \<Rightarrow> bool \<Rightarrow> AIState" where
  "DecideAction e distanceToPlayer playerHealth hasLineOfSight =
     (if fle (currentHealth e) (float_of_int 0) then DEAD
      else if flt (currentHealth e) (fmul (maxHealth e) (rnd32 0.2)) then STUNNED
      else if flt distanceToPlayer (attackRange e) \<and> hasLineOfSight then ATTACK
      else if flt distanceToPlayer (detectionRange e) \<and> hasLineOfSight then CHASE
      else PATROL)"

definition CalculateDamage :: "float32 \<Rightarrow> float32 \<Rightarrow> bool \<Rightarrow> float32" where
  "CalculateDamage baseAttackPower targetDefense isCritical =
     (let damage = fmul baseAttackPower (fsub (rnd32 1.0) (fmul targetDefense (rnd32 0.01)));
          damage = (if isCritical then fmul damage (rnd32 1.5) else damage)
      in std_max (rnd32 1.0) damage)"

definition TakeDamage :: "EnemyAIBehavior \<Rightarrow> float32 \<Rightarrow> EnemyAIBehavior" where
  "TakeDamage e damageAmount =
     e\<lparr>currentHealth := std_max (rnd32 0.0) (fsub (currentHealth e) damageAmount)\<rparr>"

definition Heal :: "EnemyAIBehavior \<Rightarrow> float32 \<Rightarrow> EnemyAIBehavior" where
  "Heal e healAmount =
     e\<lparr>currentHealth := std_min (maxHealth e) (fadd (currentHealth e) healAmount)\<rparr>"

text \<open>
  The states an instance can be in: built by the constructor, then changed only by
  calls of the two public methods that assign a field. \<open>DecideAction\<close>, \<open>FindPath\<close>,
  \<open>CalculateDamage\<close> and \<open>GetHealthPercent\<close> assign none.
\<close>

datatype enemy_call = TakeDamage_call float32 | Heal_call float32

fun apply_call :: "EnemyAIBehavior \<Rightarrow> enemy_call \<Rightarrow> EnemyAIBehavior" where
  "apply_call e (TakeDamage_call damageAmount) = TakeDamage e damageAmount"
| "apply_call e (Heal_call healAmount) = Heal e healAmount"

fun apply_calls :: "EnemyAIBehavior \<Rightarrow> enemy_call list \<Rightarrow> EnemyAIBehavior" where
  "apply_calls e [] = e"
| "apply_calls e (c # cs) = apply_calls (apply_call e c) cs"

text \<open>
  The decision procedure as the specification words it: a priority list of guarded
  outcomes, the first guard that holds decides, with a default when none does. The
  four arguments are the truth values of the guards of Dead, Stunned, Attack and Chase.
\<close>

fun first_match :: "(bool \<times> 'a) list \<Rightarrow> 'a \<Rightarrow> 'a" where
  "first_match [] d = d"
| "first_match ((g, r) # rest) d = (if g then r else first_match rest d)"

definition decision_priority :: "bool \<Rightarrow> bool \<Rightarrow> bool \<Rightarrow> bool \<Rightarrow> AIState" where
  "decision_priority dead stunned attack chase =
     first_match [(dead, DEAD), (stunned, STUNNED), (attack, ATTACK), (chase, CHASE)] PATROL"

text \<open>
  The enemy of the counterexample to the exact stun threshold: constructed with
  maximum health 7, then damaged by 5.5 and by \<open>0.1f\<close>.
\<close>

definition enemy_at_threshold :: EnemyAIBehavior where
  "enemy_at_threshold =
     TakeDamage (TakeDamage (EnemyAIBehavior_new (Fin 7)) (Fin 5.5)) (rnd32 0.1)"

subsection \<open>CombatSystem\<close>

text \<open>
  \<open>CalculateHit\<close> clamps the hit chance and compares it with
  \<open>(rand() % 100) / 100.0f\<close>. The value \<open>rand()\<close> returns, an integer from 0 to
  \<open>RAND_MAX\<close>, is the parameter \<open>r\<close>; \<open>hitChance\<close> is the local variable of that
  name after the second assignment.
\<close>

definition hitChance :: "float32 \<Rightarrow> float32 \<Rightarrow> float32" where
  "hitChance attackAccuracy targetEvasion =
     (let hitChance = fdiv (fsub attackAccuracy targetEvasion) (rnd32 100.0)
      in std_max (rnd32 0.1) (std_min (rnd32 0.95) hitChance))"

definition CalculateHit :: "nat \<Rightarrow> float32 \<Rightarrow> float32 \<Rightarrow> bool" where
  "CalculateHit r attackAccuracy targetEvasion =
     flt (fdiv (float_of_int (int (r mod 100))) (rnd32 100.0))
       (hitChance attackAccuracy targetEvasion)"

datatype Element = FIRE | ICE | LIGHTNING | NULL_ELEMENT

text \<open>The enumerators' values: \<open>FIRE = 0, ICE = 1, LIGHTNING = 2, NULL_ELEMENT = 3\<close>.\<close>

fun Element_value :: "Element \<Rightarrow> nat" where
  "Element_value FIRE = 0"
| "Element_value ICE = 1"
| "Element_value LIGHTNING = 2"
| "Element_value NULL_ELEMENT = 3"

text \<open>
  Reading a C array: inside the bounds the element, outside them undefined behaviour,
  which the model makes the value \<open>None\<close>.
\<close>

definition array_read :: "'a list \<Rightarrow> nat \<Rightarrow> 'a option" where
  "array_read xs i = (if i < length xs then Some (xs ! i) else None)"

definition matrix :: "float32 list list" where
  "matrix = [ [rnd32 1.0, rnd32 1.5, rnd32 0.5],
              [rnd32 0.5, rnd32 1.0, rnd32 1.5],
              [rnd32 1.5, rnd32 0.5, rnd32 1.0] ]"

definition GetElementalMultiplier :: "Element \<Rightarrow> Element \<Rightarrow> float32 option" where
  "GetElementalMultiplier attackElement targetElement =
     (if attackElement = NULL_ELEMENT then Some (rnd32 1.0)
      else case array_read matrix (Element_value attackElement) of
             None \<Rightarrow> None
           | Some row \<Rightarrow> array_read row (Element_value targetElement))"

text \<open>
  The clamp of the specification, \<open>clamp(x, lo, hi)\<close>, on exact numbers and on
  \<open>float\<close> values.
\<close>

definition clamp :: "real \<Rightarrow> real \<Rightarrow> real \<Rightarrow> real" where
  "clamp x lo hi = (if x < lo then lo else if hi < x then hi else x)"

definition clamp32 :: "float32 \<Rightarrow> float32 \<Rightarrow> float32 \<Rightarrow> float32" where
  "clamp32 x lo hi = (if flt x lo then lo else if flt hi x then hi else x)"

subsection \<open>SkillSystem\<close>

record Skill =
  skillId :: int
  cooldown :: float32
  cooldownRemaining :: float32
  manaCost :: float32
  damage :: float32
  isActive :: bool

record SkillSystem =
  skills :: "Skill list"
  currentMana :: float32
  maxMana :: float32

definition SkillSystem_new :: SkillSystem where
  "SkillSystem_new = \<lparr>skills = [], currentMana = rnd32 100.0, maxMana = rnd32 100.0\<rparr>"

text \<open>
  \<open>CanUseSkill\<close> scans the vector from the front and returns at the first skill with
  the identifier; it assigns nothing, so the model returns the result only.
  \<open>currentMana >= skill.manaCost\<close> is \<open>manaCost <= currentMana\<close>.
\<close>

fun CanUseSkill_scan :: "Skill list \<Rightarrow> float32 \<Rightarrow> int \<Rightarrow> bool" where
  "CanUseSkill_scan [] mana sid = False"
| "CanUseSkill_scan (skill # rest) mana sid =
     (if skillId skill = sid
      then fle (cooldownRemaining skill) (float_of_int 0) \<and> fle (manaCost skill) mana
      else CanUseSkill_scan rest mana sid)"

definition CanUseSkill :: "SkillSystem \<Rightarrow> int \<Rightarrow> bool" where
  "CanUseSkill s sid = CanUseSkill_scan (skills s) (currentMana s) sid"

text \<open>
  \<open>UseSkill\<close> walks the vector by position; at the first position whose skill has the
  identifier and for which \<open>CanUseSkill\<close> holds it updates the mana and that skill
  in place and leaves the loop.
\<close>

function UseSkill_from :: "nat \<Rightarrow> SkillSystem \<Rightarrow> int \<Rightarrow> SkillSystem" where
  "UseSkill_from i s sid =
     (if i < length (skills s) then
        (let skill = skills s ! i in
         if skillId skill = sid \<and> CanUseSkill s sid then
           s\<lparr>currentMana := fsub (currentMana s) (manaCost skill),
             skills := (skills s)[i := skill\<lparr>cooldownRemaining := cooldown skill\<rparr>]\<rparr>
         else UseSkill_from (i + 1) s sid)
      else s)"
  by pat_completeness auto
termination
  by (relation "measure (\<lambda>(i, s, sid). length (skills s) - i)") auto

declare UseSkill_from.simps [simp del]

definition UseSkill :: "SkillSystem \<Rightarrow> int \<Rightarrow> SkillSystem" where
  "UseSkill s sid = UseSkill_from 0 s sid"

fun UpdateCooldowns_each :: "Skill list \<Rightarrow> float32 \<Rightarrow> Skill list" where
  "UpdateCooldowns_each [] deltaTime = []"
| "UpdateCooldowns_each (skill # rest) deltaTime =
     skill\<lparr>cooldownRemaining := std_max (rnd32 0.0) (fsub (cooldownRemaining skill) deltaTime)\<rparr>
       # UpdateCooldowns_each rest deltaTime"

definition UpdateCooldowns :: "SkillSystem \<Rightarrow> float32 \<Rightarrow> SkillSystem" where
  "UpdateCooldowns s deltaTime = s\<lparr>skills := UpdateCooldowns_each (skills s) deltaTime\<rparr>"

definition RegenerateMana :: "SkillSystem \<Rightarrow> float32 \<Rightarrow> float32 \<Rightarrow> SkillSystem" where
  "RegenerateMana s regenRate deltaTime =
     s\<lparr>currentMana := std_min (maxMana s) (fadd (currentMana s) (fmul regenRate deltaTime))\<rparr>"

text \<open>
  The data model's invariant of the ledger: every remaining cooldown is from 0 to the
  skill's cooldown, the mana from 0 to the maximum. \<open>cooldowns_float32\<close> says that
  every cooldown is a binary32 number, as every \<open>float\<close> the program stores is.
\<close>

definition skill_inv :: "Skill \<Rightarrow> bool" where
  "skill_inv k =
     (fle (Fin 0) (cooldownRemaining k) \<and> fle (cooldownRemaining k) (cooldown k))"

definition ledger_inv :: "SkillSystem \<Rightarrow> bool" where
  "ledger_inv s =
     (list_all skill_inv (skills s)
      \<and> fle (Fin 0) (currentMana s) \<and> fle (currentMana s) (maxMana s))"

definition cooldowns_float32 :: "SkillSystem \<Rightarrow> bool" where
  "cooldowns_float32 s = list_all (\<lambda>k. is_float32 (cooldown k)) (skills s)"

text \<open>A sequence of per-tick calls, and when its arguments are all at least 0.\<close>

datatype tick_call = Advance float32 | Regenerate float32 float32

fun tick_ok :: "tick_call \<Rightarrow> bool" where
  "tick_ok (Advance deltaTime) = fle (Fin 0) deltaTime"
| "tick_ok (Regenerate regenRate deltaTime) = (fle (Fin 0) regenRate \<and> fle (Fin 0) deltaTime)"

fun run_tick :: "SkillSystem \<Rightarrow> tick_call \<Rightarrow> SkillSystem" where
  "run_tick s (Advance deltaTime) = UpdateCooldowns s deltaTime"
| "run_tick s (Regenerate regenRate deltaTime) = RegenerateMana s regenRate deltaTime"

fun run_ticks :: "SkillSystem \<Rightarrow> tick_call list \<Rightarrow> SkillSystem" where
  "run_ticks s [] = s"
| "run_ticks s (c # cs) = run_ticks (run_tick s c) cs"

text \<open>
  \<open>CanUse\<close> as the specification words it: the ledger contains a skill with the
  identifier whose remaining cooldown is 0 and whose cost the mana covers.
\<close>

definition CanUse_spec :: "SkillSystem \<Rightarrow> int \<Rightarrow> bool" where
  "CanUse_spec s sid =
     list_ex (\<lambda>k. skillId k = sid \<and> cooldownRemaining k = Fin 0 \<and> fle (manaCost k) (currentMana s))
       (skills s)"

text \<open>
  The ledger of the specification's scenario: one skill with cooldown 5 and mana cost
  20, ready, and 100 mana.
\<close>

definition scenario_skill :: Skill where
  "scenario_skill =
     \<lparr>skillId = 1, cooldown = Fin 5, cooldownRemaining = Fin 0, manaCost = Fin 20,
      damage = Fin 50, isActive = True\<rparr>"

definition scenario_ledger :: SkillSystem where
  "scenario_ledger = \<lparr>skills = [scenario_skill], currentMana = Fin 100, maxMana = Fin 100\<rparr>"

text \<open>The scenario's ledger after the skill has been used: remaining cooldown 5, mana 80.\<close>

definition used_ledger :: SkillSystem where
  "used_ledger =
     \<lparr>skills = [scenario_skill\<lparr>cooldownRemaining := Fin 5\<rparr>], currentMana = Fin 80,
      maxMana = Fin 100\<rparr>"

subsection \<open>MissionSystem\<close>

record Mission =
  missionId :: int
  missionName :: string
  completionPercentage :: float32
  targetCount :: int
  targetsEliminated :: int
  isComplete :: bool
  timeLimit :: float32

definition IsMissionComplete :: "Mission \<Rightarrow> bool" where
  "IsMissionComplete mission = (targetsEliminated mission \<ge> targetCount mission)"

text \<open>
  In \<open>static_cast<float>(targetsEliminated) / targetCount\<close> the divisor is converted
  to \<open>float\<close> as well.
\<close>

definition GetCompletionPercentage :: "Mission \<Rightarrow> float32" where
  "GetCompletionPercentage mission =
     (if targetCount mission = 0 then rnd32 0.0
      else fmul (fdiv (float_of_int (targetsEliminated mission))
                      (float_of_int (targetCount mission)))
                (rnd32 100.0))"

text \<open>A mission with the given target count and eliminated count.\<close>

definition mission_with :: "int \<Rightarrow> int \<Rightarrow> Mission" where
  "mission_with target eliminated =
     \<lparr>missionId = 1, missionName = ''mission'', completionPercentage = Fin 0,
      targetCount = target, targetsEliminated = eliminated, isComplete = False,
      timeLimit = Fin 60\<rparr>"

section \<open>Properties\<close>

subsection \<open>Rounding to binary32\<close>

lemmas f32_eval = rnd32_def ulp_exp_def ulp_exp_from.simps round_even_def Let_def

lemma ulp_exp_from_lower: "e \<le> ulp_exp_from e a"
proof (induction e a rule: ulp_exp_from.induct)
  case (1 e a)
  then show ?case by (subst ulp_exp_from.simps) (auto split: if_splits)
qed

lemma ulp_exp_from_upper: "e \<le> 104 \<Longrightarrow> ulp_exp_from e a \<le> 104"
proof (induction e a rule: ulp_exp_from.induct)
  case (1 e a)
  then show ?case by (subst ulp_exp_from.simps) auto
qed

lemma ulp_exp_from_above:
  "e \<le> 104 \<Longrightarrow> ulp_exp_from e a = 104 \<or> a < 2 powi (ulp_exp_from e a + 24)"
proof (induction e a rule: ulp_exp_from.induct)
  case (1 e a)
  show ?case
  proof (cases "e < 104 \<and> 2 powi (e + 24) \<le> a")
    case True
    then have "ulp_exp_from e a = ulp_exp_from (e + 1) a" by (subst ulp_exp_from.simps) simp
    with 1 True show ?thesis by simp
  next
    case False
    then have "ulp_exp_from e a = e" by (subst ulp_exp_from.simps) auto
    with False "1.prems" show ?thesis by auto
  qed
qed

lemma ulp_exp_from_below: "e < ulp_exp_from e a \<Longrightarrow> 2 powi (ulp_exp_from e a + 23) \<le> a"
proof (induction e a rule: ulp_exp_from.induct)
  case (1 e a)
  show ?case
  proof (cases "e < 104 \<and> 2 powi (e + 24) \<le> a")
    case True
    then have eq: "ulp_exp_from e a = ulp_exp_from (e + 1) a" by (subst ulp_exp_from.simps) simp
    show ?thesis
    proof (cases "e + 1 < ulp_exp_from (e + 1) a")
      case True
      with 1 \<open>e < 104 \<and> 2 powi (e + 24) \<le> a\<close> eq show ?thesis by simp
    next
      case False
      with ulp_exp_from_lower [of "e + 1" a] have "ulp_exp_from (e + 1) a = e + 1" by simp
      with eq \<open>e < 104 \<and> 2 powi (e + 24) \<le> a\<close> show ?thesis by (simp add: add.commute)
    qed
  next
    case False
    then have "ulp_exp_from e a = e" by (subst ulp_exp_from.simps) auto
    with "1.prems" show ?thesis by simp
  qed
qed

lemma ulp_exp_from_mono: "a \<le> b \<Longrightarrow> ulp_exp_from e a \<le> ulp_exp_from e b"
proof (induction e a arbitrary: b rule: ulp_exp_from.induct)
  case (1 e a)
  show ?case
  proof (cases "e < 104 \<and> 2 powi (e + 24) \<le> a")
    case True
    with "1.prems" have "e < 104 \<and> 2 powi (e + 24) \<le> b" by simp
    then have "ulp_exp_from e b = ulp_exp_from (e + 1) b" by (subst ulp_exp_from.simps) simp
    moreover from True have "ulp_exp_from e a = ulp_exp_from (e + 1) a"
      by (subst ulp_exp_from.simps) simp
    ultimately show ?thesis using "1.IH" [OF True "1.prems"] by simp
  next
    case False
    then have "ulp_exp_from e a = e" by (subst ulp_exp_from.simps) auto
    with ulp_exp_from_lower [of e b] show ?thesis by simp
  qed
qed

lemma ulp_exp_range: "- 149 \<le> ulp_exp x \<and> ulp_exp x \<le> 104"
  by (simp add: ulp_exp_def ulp_exp_from_lower ulp_exp_from_upper)

lemma ulp_exp_mono: "\<bar>x\<bar> \<le> \<bar>y\<bar> \<Longrightarrow> ulp_exp x \<le> ulp_exp y"
  by (simp add: ulp_exp_def ulp_exp_from_mono)

lemma ulp_exp_normal: "- 149 < ulp_exp x \<Longrightarrow> 2 powi (ulp_exp x + 23) \<le> \<bar>x\<bar>"
  unfolding ulp_exp_def by (rule ulp_exp_from_below)

lemma ulp_exp_eqI:
  assumes "- 149 \<le> e" and "e \<le> 104"
    and "e = - 149 \<or> 2 powi (e + 23) \<le> \<bar>x\<bar>"
    and "e = 104 \<or> \<bar>x\<bar> < 2 powi (e + 24)"
  shows "ulp_exp x = e"
proof (rule antisym)
  show "ulp_exp x \<le> e"
  proof (rule ccontr)
    assume "\<not> ulp_exp x \<le> e"
    then have gt: "e < ulp_exp x" by simp
    with assms(1) have "2 powi (ulp_exp x + 23) \<le> \<bar>x\<bar>" by (intro ulp_exp_normal) simp
    moreover from gt ulp_exp_range [of x] have "e \<noteq> 104" by simp
    with assms(4) have "\<bar>x\<bar> < 2 powi (e + 24)" by simp
    moreover from gt have "(2::real) powi (e + 24) \<le> 2 powi (ulp_exp x + 23)"
      by (intro power_int_increasing) simp_all
    ultimately show False by simp
  qed
  show "e \<le> ulp_exp x"
  proof (rule ccontr)
    assume "\<not> e \<le> ulp_exp x"
    then have lt: "ulp_exp x < e" by simp
    with ulp_exp_range [of x] have "e \<noteq> - 149" by simp
    with assms(3) have "2 powi (e + 23) \<le> \<bar>x\<bar>" by simp
    moreover from lt assms(2) have "ulp_exp x \<noteq> 104" by simp
    then have "\<bar>x\<bar> < 2 powi (ulp_exp x + 24)"
      using ulp_exp_from_above [of "- 149" "\<bar>x\<bar>"] by (simp add: ulp_exp_def)
    moreover from lt have "(2::real) powi (ulp_exp x + 24) \<le> 2 powi (e + 23)"
      by (intro power_int_increasing) simp_all
    ultimately show False by simp
  qed
qed

lemma round_even_bounds: "\<lfloor>x\<rfloor> \<le> round_even x \<and> round_even x \<le> \<lfloor>x\<rfloor> + 1"
  by (simp add: round_even_def Let_def)

lemma round_even_of_int: "round_even (of_int n) = n"
  by (simp add: round_even_def)

lemma round_even_le:
  assumes "x \<le> of_int n"
  shows "round_even x \<le> n"
proof (cases "x = of_int n")
  case True
  then show ?thesis by (simp add: round_even_of_int)
next
  case False
  with assms have "x < of_int n" by simp
  then have "\<lfloor>x\<rfloor> < n" by (simp add: floor_less_iff)
  with round_even_bounds [of x] show ?thesis by simp
qed

lemma round_even_ge:
  assumes "of_int n \<le> x"
  shows "n \<le> round_even x"
proof -
  from assms have "n \<le> \<lfloor>x\<rfloor>" by (simp add: le_floor_iff)
  with round_even_bounds [of x] show ?thesis by simp
qed

lemma rnd32_nonneg:
  assumes "0 \<le> x"
  shows "fle (Fin 0) (rnd32 x)"
proof -
  let ?e = "ulp_exp x"
  let ?m = "round_even (x / 2 powi ?e)"
  from assms have "of_int 0 \<le> x / 2 powi ?e" by simp
  then have "0 \<le> ?m" by (rule round_even_ge)
  then have "0 \<le> of_int ?m * (2::real) powi ?e" by simp
  moreover have "0 < (2::real) powi 128" by simp
  ultimately show ?thesis
    unfolding rnd32_def Let_def by auto
qed

lemma rnd32_nonpos:
  assumes "x \<le> 0"
  shows "fle (rnd32 x) (Fin 0)"
proof -
  let ?e = "ulp_exp x"
  let ?m = "round_even (x / 2 powi ?e)"
  from assms have "x / 2 powi ?e \<le> of_int 0" by (simp add: divide_nonpos_pos)
  then have "?m \<le> 0" by (rule round_even_le)
  then have "of_int ?m * (2::real) powi ?e \<le> 0" by (simp add: mult_nonpos_nonneg)
  moreover have "0 < (2::real) powi 128" by simp
  ultimately show ?thesis
    unfolding rnd32_def Let_def by auto
qed

lemma fle_trans: "fle a b \<Longrightarrow> fle b c \<Longrightarrow> fle a c"
  by (cases a; cases b; cases c) simp_all

lemma rnd32_below:
  assumes rep: "rnd32 y = Fin y" and "0 \<le> y" and "x \<le> y"
  shows "fle (rnd32 x) (Fin y)"
proof (cases "x \<le> 0")
  case True
  then have "fle (rnd32 x) (Fin 0)" by (rule rnd32_nonpos)
  moreover from \<open>0 \<le> y\<close> have "fle (Fin 0) (Fin y)" by simp
  ultimately show ?thesis by (rule fle_trans)
next
  case False
  define ex where "ex = ulp_exp x"
  define ey where "ey = ulp_exp y"
  define m where "m = round_even (y / 2 powi ey)"
  define p where "p = (2::real) powi ex"
  have p: "0 < p" by (simp add: p_def)
  from False assms have "\<bar>x\<bar> \<le> \<bar>y\<bar>" by simp
  then have le: "ex \<le> ey" unfolding ex_def ey_def by (rule ulp_exp_mono)
  from rep have y: "y = of_int m * 2 powi ey" and fin: "\<not> 2 powi 128 \<le> y"
    unfolding rnd32_def Let_def m_def ey_def by (auto split: if_splits)
  from le obtain k where k: "ey = ex + int k" by (metis zle_iff_zadd)
  have "(2::real) powi ey = 2 ^ k * p"
    unfolding k p_def by (simp add: power_int_add)
  with y have yp: "y = of_int (m * 2 ^ k) * p" by simp
  with p have "y / p = of_int (m * 2 ^ k)" by simp
  moreover from \<open>x \<le> y\<close> p have "x / p \<le> y / p" by (simp add: divide_right_mono)
  ultimately have "x / p \<le> of_int (m * 2 ^ k)" by simp
  then have "round_even (x / p) \<le> m * 2 ^ k" by (rule round_even_le)
  then have "real_of_int (round_even (x / p)) \<le> real_of_int (m * 2 ^ k)"
    by (simp only: of_int_le_iff)
  with p have "of_int (round_even (x / p)) * p \<le> of_int (m * 2 ^ k) * p"
    by (simp only: mult_le_cancel_right_pos)
  with yp have z: "of_int (round_even (x / p)) * p \<le> y" by simp
  with fin show ?thesis
    unfolding rnd32_def Let_def p_def ex_def by auto
qed

lemma rnd32_of_int_nonzero:
  assumes "n \<noteq> 0"
  shows "rnd32 (of_int n) \<noteq> Fin 0"
proof -
  let ?x = "real_of_int n"
  let ?e = "ulp_exp ?x"
  from assms have one: "1 \<le> \<bar>?x\<bar>" by (simp flip: of_int_abs) 
  have "ulp_exp 1 \<le> ?e" using one by (intro ulp_exp_mono) simp
  moreover have "ulp_exp 1 = - 23" by (simp add: f32_eval)
  ultimately have "- 149 < ?e" by simp
  then have "2 powi (?e + 23) \<le> \<bar>?x\<bar>" by (rule ulp_exp_normal)
  then have "2 powi (?e + 23) / 2 powi ?e \<le> \<bar>?x\<bar> / 2 powi ?e"
    by (intro divide_right_mono) simp_all
  then have big: "2 ^ 23 \<le> \<bar>?x / 2 powi ?e\<bar>" by (simp add: power_int_add)
  have "round_even (?x / 2 powi ?e) \<noteq> 0"
  proof (cases "0 \<le> ?x / 2 powi ?e")
    case True
    with big have "of_int (2 ^ 23) \<le> ?x / 2 powi ?e" by simp
    then have "2 ^ 23 \<le> round_even (?x / 2 powi ?e)" by (rule round_even_ge)
    then show ?thesis by simp
  next
    case False
    with big have "?x / 2 powi ?e \<le> of_int (- (2 ^ 23))" by simp
    then have "round_even (?x / 2 powi ?e) \<le> - (2 ^ 23)" by (rule round_even_le)
    then show ?thesis by simp
  qed
  then have "of_int (round_even (?x / 2 powi ?e)) * (2::real) powi ?e \<noteq> 0" by simp
  then show ?thesis unfolding rnd32_def Let_def by auto
qed

text \<open>
  The literals of the source, with their decimals in lowest terms: \<open>0.5f\<close>, \<open>1.5f\<close>,
  \<open>0.2f\<close>, \<open>0.01f\<close>, \<open>0.1f\<close> and \<open>0.95f\<close>.
\<close>

lemma rnd32_literals:
  "rnd32 0 = Fin 0" "rnd32 1 = Fin 1" "rnd32 3 = Fin 3" "rnd32 15 = Fin 15"
  "rnd32 100 = Fin 100" "rnd32 (1 / 2) = Fin (1 / 2)" "rnd32 (3 / 2) = Fin (3 / 2)"
  "rnd32 (1 / 5) = Fin (13421773 / 67108864)" "rnd32 (1 / 100) = Fin (5368709 / 536870912)"
  "rnd32 (1 / 10) = Fin (13421773 / 134217728)" "rnd32 (19 / 20) = Fin (15938355 / 16777216)"
  by (simp_all add: f32_eval)

lemma float_of_int_0: "float_of_int 0 = Fin 0"
  by (simp add: float_of_int_def rnd32_literals)

lemma flt_imp_fle: "flt a b \<Longrightarrow> fle a b"
  by (cases a; cases b) simp_all

lemma std_max_lower: "fle a a \<Longrightarrow> fle a (std_max a b)"
  by (simp add: std_max_def flt_imp_fle)

lemma std_min_upper: "fle a a \<Longrightarrow> fle (std_min a b) a"
  by (simp add: std_min_def flt_imp_fle)

lemma fadd_nonneg: "fle (Fin 0) a \<Longrightarrow> fle (Fin 0) b \<Longrightarrow> fle (Fin 0) (fadd a b)"
  by (cases a; cases b) (simp_all add: rnd32_nonneg)

lemma fmul_nonneg:
  "fle (Fin 0) a \<Longrightarrow> fle (Fin 0) b \<Longrightarrow> fmul a b = NaN \<or> fle (Fin 0) (fmul a b)"
  by (cases a; cases b) (simp_all add: rnd32_nonneg)

lemma fsub_below:
  assumes "fle (Fin 0) a" and "fle a c" and "is_float32 c" and "fle (Fin 0) t"
  shows "fsub a t = NaN \<or> fle (fsub a t) c"
proof (cases c)
  case (Fin y)
  with assms obtain x where a: "a = Fin x" and x: "0 \<le> x" "x \<le> y"
    by (cases a) simp_all
  from Fin assms have rep: "rnd32 y = Fin y" by simp
  show ?thesis
  proof (cases t)
    case (Fin d)
    with assms have "0 \<le> d" by simp
    with x have "x + - d \<le> y" by simp
    with rep x have "fle (rnd32 (x + - d)) (Fin y)" by (intro rnd32_below) simp_all
    with a \<open>t = Fin d\<close> \<open>c = Fin y\<close> show ?thesis by (simp add: fsub_def)
  qed (use a \<open>c = Fin y\<close> assms in \<open>simp_all add: fsub_def\<close>)
next
  case PInf
  then show ?thesis by (cases "fsub a t") simp_all
qed (use assms in \<open>cases a; simp_all\<close>)+

subsection \<open>Enemy decision procedure\<close>

text \<open>
  C1, as amended. For every enemy state and every input \<open>DecideAction\<close> returns the
  first matching case of the priority order: Dead if the health is at most 0; else
  Stunned if the health is below \<open>maxHealth * 0.2f\<close>, the binary32 product of the
  maximum health and the literal \<open>0.2f\<close> (13421773 / 67108864), rounded; else Attack
  if the target is nearer than the attack range and visible; else Chase if it is nearer
  than the detection range and visible; else Patrol. With maximum health 100 the
  threshold is exactly 20, and with ranges 15 and 3, distance 2 and line of sight,
  health 100 gives Attack and health 15 gives Stunned.
\<close>

theorem DecideAction_float_priority_order:
  "DecideAction e d ph los =
     decision_priority
       (fle (currentHealth e) (Fin 0))
       (flt (currentHealth e) (fmul (maxHealth e) (rnd32 0.2)))
       (flt d (attackRange e) \<and> los)
       (flt d (detectionRange e) \<and> los)
   \<and> rnd32 0.2 = Fin (13421773 / 67108864)
   \<and> fmul (Fin 100) (rnd32 0.2) = Fin 20
   \<and> DecideAction
        \<lparr>detectionRange = Fin 15, attackRange = Fin 3, currentHealth = Fin 100, maxHealth = Fin 100\<rparr>
        (Fin 2) ph True = ATTACK
   \<and> DecideAction
        \<lparr>detectionRange = Fin 15, attackRange = Fin 3, currentHealth = Fin 15, maxHealth = Fin 100\<rparr>
        (Fin 2) ph True = STUNNED
   \<and> DecideAction (EnemyAIBehavior_new (Fin 100)) (Fin 2) ph True = ATTACK
   \<and> DecideAction (TakeDamage (EnemyAIBehavior_new (Fin 100)) (Fin 85)) (Fin 2) ph True = STUNNED"
proof -
  have gen: "DecideAction e d ph los =
     decision_priority
       (fle (currentHealth e) (Fin 0))
       (flt (currentHealth e) (fmul (maxHealth e) (rnd32 0.2)))
       (flt d (attackRange e) \<and> los)
       (flt d (detectionRange e) \<and> los)"
    by (simp add: DecideAction_def decision_priority_def float_of_int_0)
  have lit: "rnd32 0.2 = Fin (13421773 / 67108864) \<and> fmul (Fin 100) (rnd32 0.2) = Fin 20"
    by (simp add: f32_eval)
  have sc: "DecideAction
        \<lparr>detectionRange = Fin 15, attackRange = Fin 3, currentHealth = Fin 100, maxHealth = Fin 100\<rparr>
        (Fin 2) ph True = ATTACK
   \<and> DecideAction
        \<lparr>detectionRange = Fin 15, attackRange = Fin 3, currentHealth = Fin 15, maxHealth = Fin 100\<rparr>
        (Fin 2) ph True = STUNNED
   \<and> DecideAction (EnemyAIBehavior_new (Fin 100)) (Fin 2) ph True = ATTACK
   \<and> DecideAction (TakeDamage (EnemyAIBehavior_new (Fin 100)) (Fin 85)) (Fin 2) ph True = STUNNED"
    by (simp add: DecideAction_def EnemyAIBehavior_new_def TakeDamage_def float_of_int_def
        fsub_def std_max_def f32_eval)
  from gen lit sc show ?thesis by blast
qed

text \<open>
  With the exact threshold 0.2 times the maximum health the claim fails. An enemy
  constructed with maximum health 7 and damaged by 5.5 and by \<open>0.1f\<close> has the health
  11744051 / 8388608. That is below 1.4, so the priority order as the claim states it
  gives Stunned; it is equal to the rounded product of 7 and \<open>0.2f\<close>, so the code
  does not take the Stunned case and answers Attack.
\<close>

theorem DecideAction_exact_threshold_counterexample:
  "enemy_at_threshold =
     \<lparr>detectionRange = Fin 15, attackRange = Fin 3,
      currentHealth = Fin (11744051 / 8388608), maxHealth = Fin 7\<rparr>
   \<and> DecideAction enemy_at_threshold (Fin 2) (Fin 50) True = ATTACK
   \<and> decision_priority ((11744051 / 8388608 :: real) \<le> 0) ((11744051 / 8388608 :: real) < 0.2 * 7)
        ((2::real) < 3 \<and> True) ((2::real) < 15 \<and> True) = STUNNED"
proof -
  have st: "enemy_at_threshold =
     \<lparr>detectionRange = Fin 15, attackRange = Fin 3,
      currentHealth = Fin (11744051 / 8388608), maxHealth = Fin 7\<rparr>"
    by (simp add: enemy_at_threshold_def EnemyAIBehavior_new_def TakeDamage_def fsub_def
        std_max_def f32_eval)
  have code: "DecideAction enemy_at_threshold (Fin 2) (Fin 50) True = ATTACK"
    unfolding st by (simp add: DecideAction_def float_of_int_def f32_eval)
  have claim: "decision_priority ((11744051 / 8388608 :: real) \<le> 0)
        ((11744051 / 8388608 :: real) < 0.2 * 7)
        ((2::real) < 3 \<and> True) ((2::real) < 15 \<and> True) = STUNNED"
    by (simp add: decision_priority_def)
  from st code claim show ?thesis by blast
qed

lemma apply_call_ranges:
  "detectionRange (apply_call e c) = detectionRange e
   \<and> attackRange (apply_call e c) = attackRange e"
  by (cases c) (simp_all add: TakeDamage_def Heal_def)

lemma apply_calls_ranges:
  "detectionRange (apply_calls e cs) = detectionRange e
   \<and> attackRange (apply_calls e cs) = attackRange e"
  by (induction cs arbitrary: e) (simp_all add: apply_call_ranges)

text \<open>
  C10. Every instance is constructed with detection range 15.0 and attack range 3.0, and
  neither \<open>TakeDamage\<close> nor \<open>Heal\<close>, the only methods that assign a field, changes
  them. So after any sequence of calls on a constructed instance the ranges are still
  15.0 and 3.0 and the attack range is at most the detection range. There
  \<open>DecideAction\<close> answers Attack exactly when the enemy is neither dead nor stunned
  and the target is visible and nearer than 3, and Chase exactly when it is visible at
  a distance from 3 to below 15: the Chase case never takes an input of the Attack case.
\<close>

theorem ranges_fixed_after_construction:
  "detectionRange (EnemyAIBehavior_new maxHp) = Fin 15
   \<and> attackRange (EnemyAIBehavior_new maxHp) = Fin 3
   \<and> detectionRange (TakeDamage e0 amount) = detectionRange e0
   \<and> attackRange (TakeDamage e0 amount) = attackRange e0
   \<and> detectionRange (Heal e0 amount) = detectionRange e0
   \<and> attackRange (Heal e0 amount) = attackRange e0
   \<and> detectionRange (apply_calls (EnemyAIBehavior_new maxHp) cs) = Fin 15
   \<and> attackRange (apply_calls (EnemyAIBehavior_new maxHp) cs) = Fin 3
   \<and> fle (attackRange (apply_calls (EnemyAIBehavior_new maxHp) cs))
          (detectionRange (apply_calls (EnemyAIBehavior_new maxHp) cs))
   \<and> (DecideAction (apply_calls (EnemyAIBehavior_new maxHp) cs) d ph los = ATTACK)
       = (\<not> fle (currentHealth (apply_calls (EnemyAIBehavior_new maxHp) cs)) (Fin 0)
          \<and> \<not> flt (currentHealth (apply_calls (EnemyAIBehavior_new maxHp) cs))
                   (fmul (maxHealth (apply_calls (EnemyAIBehavior_new maxHp) cs)) (rnd32 0.2))
          \<and> flt d (Fin 3) \<and> los)
   \<and> (DecideAction (apply_calls (EnemyAIBehavior_new maxHp) cs) d ph los = CHASE)
       = (\<not> fle (currentHealth (apply_calls (EnemyAIBehavior_new maxHp) cs)) (Fin 0)
          \<and> \<not> flt (currentHealth (apply_calls (EnemyAIBehavior_new maxHp) cs))
                   (fmul (maxHealth (apply_calls (EnemyAIBehavior_new maxHp) cs)) (rnd32 0.2))
          \<and> fle (Fin 3) d \<and> flt d (Fin 15) \<and> los)"
proof -
  let ?e = "apply_calls (EnemyAIBehavior_new maxHp) cs"
  have dr: "detectionRange ?e = Fin 15" and ar: "attackRange ?e = Fin 3"
    by (simp_all add: apply_calls_ranges EnemyAIBehavior_new_def rnd32_literals)
  have new: "detectionRange (EnemyAIBehavior_new maxHp) = Fin 15
      \<and> attackRange (EnemyAIBehavior_new maxHp) = Fin 3"
    by (simp add: EnemyAIBehavior_new_def rnd32_literals)
  have mut: "detectionRange (TakeDamage e0 amount) = detectionRange e0
      \<and> attackRange (TakeDamage e0 amount) = attackRange e0
      \<and> detectionRange (Heal e0 amount) = detectionRange e0
      \<and> attackRange (Heal e0 amount) = attackRange e0"
    by (simp add: TakeDamage_def Heal_def)
  have att: "(DecideAction ?e d ph los = ATTACK)
       = (\<not> fle (currentHealth ?e) (Fin 0)
          \<and> \<not> flt (currentHealth ?e) (fmul (maxHealth ?e) (rnd32 0.2))
          \<and> flt d (Fin 3) \<and> los)"
    unfolding DecideAction_def dr ar float_of_int_0 by auto
  have band: "(\<not> flt d (Fin 3) \<and> flt d (Fin 15)) = (fle (Fin 3) d \<and> flt d (Fin 15))"
    by (cases d) auto
  have cha: "(DecideAction ?e d ph los = CHASE)
       = (\<not> fle (currentHealth ?e) (Fin 0)
          \<and> \<not> flt (currentHealth ?e) (fmul (maxHealth ?e) (rnd32 0.2))
          \<and> fle (Fin 3) d \<and> flt d (Fin 15) \<and> los)"
    unfolding DecideAction_def dr ar float_of_int_0 using band by auto
  show ?thesis using dr ar new mut att cha by simp
qed

subsection \<open>Combat arithmetic\<close>

text \<open>
  C2. \<open>GetElementalMultiplier\<close> returns 1.0 for every target when the attacker's
  element is Null, and on Fire, Ice and Lightning it returns the cyclic advantage
  table: Fire on Ice 1.5, Fire on Lightning 0.5, Fire on Fire 1.0, Ice on Lightning 1.5,
  Ice on Fire 0.5, Ice on Ice 1.0, Lightning on Fire 1.5, Lightning on Ice 0.5,
  Lightning on Lightning 1.0. The three multipliers are binary32 numbers, so the
  literals are exact.
\<close>

theorem GetElementalMultiplier_table:
  "GetElementalMultiplier NULL_ELEMENT targetElement = Some (Fin 1.0)
   \<and> GetElementalMultiplier FIRE ICE = Some (Fin 1.5)
   \<and> GetElementalMultiplier FIRE LIGHTNING = Some (Fin 0.5)
   \<and> GetElementalMultiplier FIRE FIRE = Some (Fin 1.0)
   \<and> GetElementalMultiplier ICE LIGHTNING = Some (Fin 1.5)
   \<and> GetElementalMultiplier ICE FIRE = Some (Fin 0.5)
   \<and> GetElementalMultiplier ICE ICE = Some (Fin 1.0)
   \<and> GetElementalMultiplier LIGHTNING FIRE = Some (Fin 1.5)
   \<and> GetElementalMultiplier LIGHTNING ICE = Some (Fin 0.5)
   \<and> GetElementalMultiplier LIGHTNING LIGHTNING = Some (Fin 1.0)"
  by (simp add: GetElementalMultiplier_def array_read_def matrix_def rnd32_literals)

text \<open>
  C3. With an attacker element of Fire, Ice or Lightning and the target element Null,
  \<open>GetElementalMultiplier\<close> reads its 3 by 3 matrix at column 3, outside the row: the
  bounds-checked read yields \<open>None\<close>. The function yields a value exactly when the
  attacker is Null or the target is not, so it is well defined only under the
  precondition that a non-Null attacker never meets a Null target.
\<close>

theorem GetElementalMultiplier_out_of_bounds:
  "Element_value NULL_ELEMENT = 3
   \<and> array_read matrix (Element_value FIRE) = Some [Fin 1.0, Fin 1.5, Fin 0.5]
   \<and> array_read [Fin 1.0, Fin 1.5, Fin 0.5] (Element_value NULL_ELEMENT) = None
   \<and> GetElementalMultiplier FIRE NULL_ELEMENT = None
   \<and> GetElementalMultiplier ICE NULL_ELEMENT = None
   \<and> GetElementalMultiplier LIGHTNING NULL_ELEMENT = None
   \<and> (GetElementalMultiplier attackElement targetElement = None)
       = (attackElement \<noteq> NULL_ELEMENT \<and> targetElement = NULL_ELEMENT)"
  by (cases attackElement; cases targetElement;
      simp add: GetElementalMultiplier_def array_read_def matrix_def rnd32_literals)

text \<open>
  C4, as amended. For every base power, every target defence and either value of the
  critical flag, \<open>CalculateDamage\<close> returns \<open>std::max\<close> of 1.0 and the binary32 value
  of base power times (1 - defence times \<open>0.01f\<close>), times 1.5 when the hit is critical,
  every operation rounded to binary32. The result is at least 1.0 for every input: for
  a defence above 100, where the product is not positive (base power 10 against defence
  200 gives 1.0), when the product overflows to infinity, and for a NaN base power,
  which gives 1.0.
\<close>

theorem CalculateDamage_float_floor:
  "CalculateDamage basePower targetDefense isCritical
     = std_max (Fin 1)
         (if isCritical
          then fmul (fmul basePower (fsub (Fin 1) (fmul targetDefense (rnd32 0.01)))) (rnd32 1.5)
          else fmul basePower (fsub (Fin 1) (fmul targetDefense (rnd32 0.01))))
   \<and> fle (Fin 1) (CalculateDamage basePower targetDefense isCritical)
   \<and> CalculateDamage (Fin 10) (Fin 200) isCritical = Fin 1
   \<and> CalculateDamage (Fin (3 * 2 ^ 126)) (Fin 0) True = PInf
   \<and> CalculateDamage NaN targetDefense isCritical = Fin 1"
proof -
  have eq: "CalculateDamage basePower targetDefense isCritical
     = std_max (Fin 1)
         (if isCritical
          then fmul (fmul basePower (fsub (Fin 1) (fmul targetDefense (rnd32 0.01)))) (rnd32 1.5)
          else fmul basePower (fsub (Fin 1) (fmul targetDefense (rnd32 0.01))))"
    by (simp add: CalculateDamage_def Let_def rnd32_literals)
  have ge: "fle (Fin 1) (CalculateDamage basePower targetDefense isCritical)"
    unfolding eq by (rule std_max_lower) simp
  have low: "CalculateDamage (Fin 10) (Fin 200) isCritical = Fin 1"
    by (simp add: CalculateDamage_def fsub_def std_max_def f32_eval)
  have inf: "CalculateDamage (Fin (3 * 2 ^ 126)) (Fin 0) True = PInf"
    by (simp add: CalculateDamage_def fsub_def std_max_def f32_eval)
  have nan: "CalculateDamage NaN targetDefense isCritical = Fin 1"
    by (simp add: CalculateDamage_def Let_def rnd32_literals std_max_def)
  from eq ge low inf nan show ?thesis by blast
qed

text \<open>
  With exact arithmetic the claim fails: for base power 100 and defence 30 the exact
  formula gives 70, the code returns 9175041 / 131072, about 70.0000076.
\<close>

theorem CalculateDamage_exact_formula_counterexample:
  "CalculateDamage (Fin 100) (Fin 30) False = Fin (9175041 / 131072)
   \<and> max 1.0 (100 * (1 - 0.01 * 30)) = (70 :: real)
   \<and> (9175041 / 131072 :: real) \<noteq> 70"
  by (simp add: CalculateDamage_def fsub_def std_max_def f32_eval)

text \<open>
  C7, as amended. For every accuracy and evasion the hit chance computed in
  \<open>CalculateHit\<close> is the binary32 quotient of the binary32 difference
  accuracy - evasion by 100, clamped between the literals \<open>0.1f\<close>
  (13421773 / 134217728) and \<open>0.95f\<close> (15938355 / 16777216), and \<open>0.95f\<close> when that
  quotient is NaN. It lies between the two literals, hence in the closed interval from
  0.10 to 0.95, also when accuracy - evasion is outside 10 to 95 (200 gives \<open>0.95f\<close>,
  -50 gives \<open>0.1f\<close>). The function returns true exactly when the binary32 quotient of
  \<open>rand() % 100\<close> by 100 is strictly below that chance: at chance \<open>0.95f\<close> the values
  94 and 194 of \<open>rand()\<close> hit and 95 and 195 miss, at chance \<open>0.1f\<close> 9 hits and 10
  misses.
\<close>

theorem CalculateHit_float_clamped_chance:
  "hitChance accuracy evasion =
     (if fdiv (fsub accuracy evasion) (Fin 100) = NaN then rnd32 0.95
      else clamp32 (fdiv (fsub accuracy evasion) (Fin 100)) (rnd32 0.1) (rnd32 0.95))
   \<and> rnd32 0.1 = Fin (13421773 / 134217728) \<and> rnd32 0.95 = Fin (15938355 / 16777216)
   \<and> fle (rnd32 0.1) (hitChance accuracy evasion)
   \<and> fle (hitChance accuracy evasion) (rnd32 0.95)
   \<and> fle (Fin 0.10) (hitChance accuracy evasion)
   \<and> fle (hitChance accuracy evasion) (Fin 0.95)
   \<and> CalculateHit r accuracy evasion
       = flt (fdiv (float_of_int (int (r mod 100))) (Fin 100)) (hitChance accuracy evasion)
   \<and> hitChance (Fin 200) (Fin 0) = rnd32 0.95
   \<and> hitChance (Fin 0) (Fin 50) = rnd32 0.1
   \<and> CalculateHit 94 (Fin 200) (Fin 0) \<and> \<not> CalculateHit 95 (Fin 200) (Fin 0)
   \<and> CalculateHit 194 (Fin 200) (Fin 0) \<and> \<not> CalculateHit 195 (Fin 200) (Fin 0)
   \<and> CalculateHit 9 (Fin 0) (Fin 50) \<and> \<not> CalculateHit 10 (Fin 0) (Fin 50)"
proof -
  define q where "q = fdiv (fsub accuracy evasion) (Fin 100)"
  have lits: "rnd32 0.1 = Fin (13421773 / 134217728) \<and> rnd32 0.95 = Fin (15938355 / 16777216)"
    by (simp add: rnd32_literals)
  have h: "hitChance accuracy evasion = std_max (rnd32 0.1) (std_min (rnd32 0.95) q)"
    by (simp add: hitChance_def q_def rnd32_literals)
  have cl: "hitChance accuracy evasion =
     (if q = NaN then rnd32 0.95 else clamp32 q (rnd32 0.1) (rnd32 0.95))"
    unfolding h by (cases q) (auto simp add: std_max_def std_min_def clamp32_def rnd32_literals)
  have lo: "fle (rnd32 0.1) (hitChance accuracy evasion)"
    unfolding h by (cases q) (auto simp add: std_max_def std_min_def rnd32_literals)
  have hi: "fle (hitChance accuracy evasion) (rnd32 0.95)"
    unfolding h by (cases q) (auto simp add: std_max_def std_min_def rnd32_literals)
  have lo': "fle (Fin 0.10) (hitChance accuracy evasion)"
    by (rule fle_trans [OF _ lo]) (simp add: rnd32_literals)
  have hi': "fle (hitChance accuracy evasion) (Fin 0.95)"
    by (rule fle_trans [OF hi]) (simp add: rnd32_literals)
  have hit: "CalculateHit r accuracy evasion
       = flt (fdiv (float_of_int (int (r mod 100))) (Fin 100)) (hitChance accuracy evasion)"
    by (simp add: CalculateHit_def rnd32_literals)
  have c1: "hitChance (Fin 200) (Fin 0) = rnd32 0.95 \<and> hitChance (Fin 0) (Fin 50) = rnd32 0.1"
    by (simp add: hitChance_def fsub_def std_max_def std_min_def f32_eval)
  have c2: "CalculateHit 94 (Fin 200) (Fin 0) \<and> \<not> CalculateHit 95 (Fin 200) (Fin 0)"
    by (simp add: CalculateHit_def hitChance_def float_of_int_def fsub_def std_max_def
        std_min_def f32_eval)
  have c3: "CalculateHit 194 (Fin 200) (Fin 0) \<and> \<not> CalculateHit 195 (Fin 200) (Fin 0)"
    by (simp add: CalculateHit_def hitChance_def float_of_int_def fsub_def std_max_def
        std_min_def f32_eval)
  have c4: "CalculateHit 9 (Fin 0) (Fin 50) \<and> \<not> CalculateHit 10 (Fin 0) (Fin 50)"
    by (simp add: CalculateHit_def hitChance_def float_of_int_def fsub_def std_max_def
        std_min_def f32_eval)
  from cl lits lo hi lo' hi' hit c1 c2 c3 c4 show ?thesis unfolding q_def by blast
qed

text \<open>
  With the exact quotient the claim fails. For the binary32 accuracy
  14155777 / 262144 (about 54.0000038), evasion 0 and \<open>rand() % 100 = 54\<close>, the chance
  and the draw of the code are the same number 9059697 / 16777216, so the code returns
  false; the exact draw 0.54 is strictly below the exact clamped chance, and the code's
  chance is not that exact value.
\<close>

theorem CalculateHit_exact_chance_counterexample:
  "is_float32 (Fin (14155777 / 262144))
   \<and> hitChance (Fin (14155777 / 262144)) (Fin 0) = Fin (9059697 / 16777216)
   \<and> fdiv (float_of_int (int (54 mod 100))) (rnd32 100.0) = Fin (9059697 / 16777216)
   \<and> \<not> CalculateHit 54 (Fin (14155777 / 262144)) (Fin 0)
   \<and> (9059697 / 16777216 :: real) \<noteq> clamp ((14155777 / 262144 - 0) / 100) 0.10 0.95
   \<and> real (54 mod 100) / 100 < clamp ((14155777 / 262144 - 0) / 100) 0.10 0.95"
proof -
  have a: "is_float32 (Fin (14155777 / 262144))"
    by (simp add: f32_eval)
  have b: "hitChance (Fin (14155777 / 262144)) (Fin 0) = Fin (9059697 / 16777216)"
    by (simp add: hitChance_def fsub_def std_max_def std_min_def f32_eval)
  have c: "fdiv (float_of_int (int (54 mod 100))) (rnd32 100.0) = Fin (9059697 / 16777216)"
    by (simp add: float_of_int_def f32_eval)
  have d: "\<not> CalculateHit 54 (Fin (14155777 / 262144)) (Fin 0)"
    unfolding CalculateHit_def b c by simp
  have e: "(9059697 / 16777216 :: real) \<noteq> clamp ((14155777 / 262144 - 0) / 100) 0.10 0.95
     \<and> real (54 mod 100) / 100 < clamp ((14155777 / 262144 - 0) / 100) 0.10 0.95"
    by (simp add: clamp_def)
  from a b c d e show ?thesis by blast
qed

subsection \<open>Skill ledger\<close>

lemma flt_not_fle: "flt a b \<Longrightarrow> \<not> fle b a"
  by (cases a; cases b) simp_all

lemma CanUseSkill_scan_find:
  "CanUseSkill_scan ks mana sid =
     (case find (\<lambda>k. skillId k = sid) ks of
        None \<Rightarrow> False
      | Some k \<Rightarrow> fle (cooldownRemaining k) (Fin 0) \<and> fle (manaCost k) mana)"
  by (induction ks) (simp_all add: float_of_int_0)

lemma CanUseSkill_first:
  assumes "j < length (skills s)" and "skillId (skills s ! j) = sid"
    and "\<forall>i<j. skillId (skills s ! i) \<noteq> sid"
  shows "CanUseSkill s sid
           = (fle (cooldownRemaining (skills s ! j)) (Fin 0)
              \<and> fle (manaCost (skills s ! j)) (currentMana s))"
proof -
  have "find (\<lambda>k. skillId k = sid) (skills s) = Some (skills s ! j)"
    using assms by (auto simp add: find_Some_iff)
  then show ?thesis by (simp add: CanUseSkill_def CanUseSkill_scan_find)
qed

lemma CanUseSkill_position:
  assumes "CanUseSkill s sid"
  shows "\<exists>j<length (skills s). skillId (skills s ! j) = sid
           \<and> (\<forall>i<j. skillId (skills s ! i) \<noteq> sid)"
proof -
  from assms obtain k where "find (\<lambda>k. skillId k = sid) (skills s) = Some k"
    by (auto simp add: CanUseSkill_def CanUseSkill_scan_find split: option.splits)
  then show ?thesis by (auto simp add: find_Some_iff)
qed

lemma CanUseSkill_unknown:
  assumes "sid \<notin> skillId ` set (skills s)"
  shows "\<not> CanUseSkill s sid"
proof -
  have "find (\<lambda>k. skillId k = sid) (skills s) = None"
    using assms by (auto simp add: find_None_iff)
  then show ?thesis by (simp add: CanUseSkill_def CanUseSkill_scan_find)
qed

lemma UseSkill_from_refused:
  "\<not> CanUseSkill s sid \<Longrightarrow> UseSkill_from i s sid = s"
proof (induction i s sid rule: UseSkill_from.induct)
  case (1 i s sid)
  then show ?case by (subst UseSkill_from.simps) (simp add: Let_def)
qed

lemma UseSkill_from_commit:
  assumes "CanUseSkill s sid" and "j < length (skills s)" and "skillId (skills s ! j) = sid"
    and "\<forall>k. i \<le> k \<and> k < j \<longrightarrow> skillId (skills s ! k) \<noteq> sid" and "i \<le> j"
  shows "UseSkill_from i s sid =
           s\<lparr>currentMana := fsub (currentMana s) (manaCost (skills s ! j)),
             skills := (skills s)[j := (skills s ! j)\<lparr>cooldownRemaining := cooldown (skills s ! j)\<rparr>]\<rparr>"
  using assms
proof (induction i s sid rule: UseSkill_from.induct)
  case (1 i s sid)
  show ?case
  proof (cases "i = j")
    case True
    with "1.prems" show ?thesis by (subst UseSkill_from.simps) (simp add: Let_def)
  next
    case False
    with "1.prems" have lt: "i < j" and ne: "skillId (skills s ! i) \<noteq> sid" by auto
    from lt "1.prems" have il: "i < length (skills s)" by simp
    have "UseSkill_from i s sid = UseSkill_from (i + 1) s sid"
      using il ne by (subst UseSkill_from.simps) (simp add: Let_def)
    also have "\<dots> = s\<lparr>currentMana := fsub (currentMana s) (manaCost (skills s ! j)),
             skills := (skills s)[j := (skills s ! j)\<lparr>cooldownRemaining := cooldown (skills s ! j)\<rparr>]\<rparr>"
      using "1.IH"[OF il refl] ne "1.prems" lt by simp
    finally show ?thesis .
  qed
qed

lemma UseSkill_twice:
  assumes "j < length (skills s)" and "skillId (skills s ! j) = sid"
    and "\<forall>i<j. skillId (skills s ! i) \<noteq> sid" and "flt (Fin 0) (cooldown (skills s ! j))"
  shows "\<not> CanUseSkill
           (s\<lparr>currentMana := fsub (currentMana s) (manaCost (skills s ! j)),
             skills := (skills s)[j := (skills s ! j)\<lparr>cooldownRemaining := cooldown (skills s ! j)\<rparr>]\<rparr>)
           sid"
proof -
  let ?s' = "s\<lparr>currentMana := fsub (currentMana s) (manaCost (skills s ! j)),
             skills := (skills s)[j := (skills s ! j)\<lparr>cooldownRemaining := cooldown (skills s ! j)\<rparr>]\<rparr>"
  have "CanUseSkill ?s' sid
         = (fle (cooldownRemaining (skills ?s' ! j)) (Fin 0)
            \<and> fle (manaCost (skills ?s' ! j)) (currentMana ?s'))"
    using assms by (intro CanUseSkill_first) simp_all
  with flt_not_fle [OF assms(4)] assms(1) show ?thesis by simp
qed

lemma find_unique_nonneg:
  assumes "distinct (map skillId ks)" and "\<forall>k\<in>set ks. fle (Fin 0) (cooldownRemaining k)"
  shows "(case find (\<lambda>k. skillId k = sid) ks of
            None \<Rightarrow> False
          | Some k \<Rightarrow> fle (cooldownRemaining k) (Fin 0) \<and> fle (manaCost k) mana)
         = list_ex (\<lambda>k. skillId k = sid \<and> cooldownRemaining k = Fin 0 \<and> fle (manaCost k) mana) ks"
  using assms
proof (induction ks)
  case Nil
  then show ?case by simp
next
  case (Cons k ks)
  show ?case
  proof (cases "skillId k = sid")
    case True
    with Cons.prems have "\<forall>k'\<in>set ks. skillId k' \<noteq> sid"
      by (auto simp add: image_iff)
    then have "\<not> list_ex (\<lambda>k. skillId k = sid \<and> cooldownRemaining k = Fin 0 \<and> fle (manaCost k) mana) ks"
      by (simp add: list_ex_iff)
    moreover from Cons.prems have "fle (Fin 0) (cooldownRemaining k)" by simp
    then have "fle (cooldownRemaining k) (Fin 0) = (cooldownRemaining k = Fin 0)"
      by (cases "cooldownRemaining k") auto
    ultimately show ?thesis using True by simp
  next
    case False
    with Cons show ?thesis by simp
  qed
qed

text \<open>
  C8. For every ledger of the data model (skill identifiers pairwise distinct, no
  remaining cooldown below 0) and every identifier, \<open>CanUseSkill\<close> is true exactly when
  the ledger contains a skill with that identifier whose remaining cooldown is 0 and
  whose mana cost is at most the current mana. For an identifier not in the ledger the
  result is false, for every ledger. The function is total and returns a truth value
  only: nothing is raised and no state is changed.
\<close>

theorem CanUseSkill_on_data_model:
  "(distinct (map skillId (skills s)) \<and> (\<forall>k\<in>set (skills s). fle (Fin 0) (cooldownRemaining k))
      \<longrightarrow> CanUseSkill s sid = CanUse_spec s sid)
   \<and> (distinct (map skillId (skills s)) \<and> ledger_inv s
        \<longrightarrow> CanUseSkill s sid = CanUse_spec s sid)
   \<and> (sid \<notin> skillId ` set (skills s) \<longrightarrow> CanUseSkill s sid = False)"
proof -
  have a: "CanUseSkill s sid = CanUse_spec s sid"
    if "distinct (map skillId (skills s))"
      and "\<forall>k\<in>set (skills s). fle (Fin 0) (cooldownRemaining k)"
    using that
    by (simp add: CanUseSkill_def CanUseSkill_scan_find CanUse_spec_def find_unique_nonneg)
  have b: "\<forall>k\<in>set (skills s). fle (Fin 0) (cooldownRemaining k)" if "ledger_inv s"
    using that by (simp add: ledger_inv_def list_all_iff skill_inv_def)
  have c: "CanUseSkill s sid = False" if "sid \<notin> skillId ` set (skills s)"
    using that by (simp add: CanUseSkill_unknown)
  from a b c show ?thesis by blast
qed

theorem CanUseSkill_on_data_model_witness:
  "distinct (map skillId (skills scenario_ledger))
   \<and> list_all (\<lambda>k. fle (Fin 0) (cooldownRemaining k)) (skills scenario_ledger)
   \<and> ledger_inv scenario_ledger
   \<and> CanUseSkill scenario_ledger 1 \<and> CanUse_spec scenario_ledger 1
   \<and> ledger_inv used_ledger
   \<and> \<not> CanUseSkill used_ledger 1 \<and> \<not> CanUse_spec used_ledger 1
   \<and> 2 \<notin> skillId ` set (skills scenario_ledger)
   \<and> \<not> CanUseSkill scenario_ledger 2"
  using CanUseSkill_on_data_model [of scenario_ledger 1]
    CanUseSkill_on_data_model [of scenario_ledger 2]
    CanUseSkill_on_data_model [of used_ledger 1]
  by (simp add: scenario_ledger_def used_ledger_def scenario_skill_def CanUse_spec_def
      ledger_inv_def skill_inv_def)

text \<open>
  C5. For every ledger and identifier: when \<open>CanUseSkill\<close> holds, \<open>UseSkill\<close> deducts
  the mana cost of the skill (the first one with the identifier) from the current mana,
  a binary32 subtraction, and sets its remaining cooldown to its cooldown, changing
  nothing else; when \<open>CanUseSkill\<close> does not hold, the state is returned unchanged. So
  the state is unchanged when the identifier is unknown, when the skill is on cooldown
  and when the mana does not cover the cost, and after a use that started a positive
  cooldown a second use changes nothing.
\<close>

theorem UseSkill_commits_iff_CanUseSkill:
  "(CanUseSkill s sid \<longrightarrow>
      (\<exists>j<length (skills s). skillId (skills s ! j) = sid
         \<and> (\<forall>i<j. skillId (skills s ! i) \<noteq> sid)
         \<and> UseSkill s sid =
             s\<lparr>currentMana := fsub (currentMana s) (manaCost (skills s ! j)),
               skills := (skills s)[j := (skills s ! j)\<lparr>cooldownRemaining := cooldown (skills s ! j)\<rparr>]\<rparr>
         \<and> (flt (Fin 0) (cooldown (skills s ! j)) \<longrightarrow> UseSkill (UseSkill s sid) sid = UseSkill s sid)))
   \<and> (\<not> CanUseSkill s sid \<longrightarrow> UseSkill s sid = s)
   \<and> (sid \<notin> skillId ` set (skills s) \<longrightarrow> UseSkill s sid = s)
   \<and> ((\<exists>j<length (skills s). skillId (skills s ! j) = sid
          \<and> (\<forall>i<j. skillId (skills s ! i) \<noteq> sid)
          \<and> (\<not> fle (cooldownRemaining (skills s ! j)) (Fin 0)
               \<or> \<not> fle (manaCost (skills s ! j)) (currentMana s)))
        \<longrightarrow> UseSkill s sid = s)"
proof (intro conjI impI)
  assume can: "CanUseSkill s sid"
  then obtain j where j: "j < length (skills s)" "skillId (skills s ! j) = sid"
      "\<forall>i<j. skillId (skills s ! i) \<noteq> sid"
    using CanUseSkill_position by blast
  let ?s' = "s\<lparr>currentMana := fsub (currentMana s) (manaCost (skills s ! j)),
             skills := (skills s)[j := (skills s ! j)\<lparr>cooldownRemaining := cooldown (skills s ! j)\<rparr>]\<rparr>"
  have use: "UseSkill s sid = ?s'"
    unfolding UseSkill_def using can j by (intro UseSkill_from_commit) simp_all
  have again: "flt (Fin 0) (cooldown (skills s ! j)) \<longrightarrow> UseSkill (UseSkill s sid) sid = UseSkill s sid"
  proof
    assume "flt (Fin 0) (cooldown (skills s ! j))"
    with j have "\<not> CanUseSkill ?s' sid" by (intro UseSkill_twice) simp_all
    then have "UseSkill ?s' sid = ?s'" by (simp add: UseSkill_def UseSkill_from_refused)
    with use show "UseSkill (UseSkill s sid) sid = UseSkill s sid" by simp
  qed
  from j use again show "\<exists>j<length (skills s). skillId (skills s ! j) = sid
         \<and> (\<forall>i<j. skillId (skills s ! i) \<noteq> sid)
         \<and> UseSkill s sid =
             s\<lparr>currentMana := fsub (currentMana s) (manaCost (skills s ! j)),
               skills := (skills s)[j := (skills s ! j)\<lparr>cooldownRemaining := cooldown (skills s ! j)\<rparr>]\<rparr>
         \<and> (flt (Fin 0) (cooldown (skills s ! j)) \<longrightarrow> UseSkill (UseSkill s sid) sid = UseSkill s sid)"
    by blast
next
  assume "\<not> CanUseSkill s sid"
  then show "UseSkill s sid = s" by (simp add: UseSkill_def UseSkill_from_refused)
next
  assume "sid \<notin> skillId ` set (skills s)"
  then have "\<not> CanUseSkill s sid" by (rule CanUseSkill_unknown)
  then show "UseSkill s sid = s" by (simp add: UseSkill_def UseSkill_from_refused)
next
  assume "\<exists>j<length (skills s). skillId (skills s ! j) = sid
          \<and> (\<forall>i<j. skillId (skills s ! i) \<noteq> sid)
          \<and> (\<not> fle (cooldownRemaining (skills s ! j)) (Fin 0)
               \<or> \<not> fle (manaCost (skills s ! j)) (currentMana s))"
  then obtain j where j: "j < length (skills s)" "skillId (skills s ! j) = sid"
      "\<forall>i<j. skillId (skills s ! i) \<noteq> sid"
      and no: "\<not> fle (cooldownRemaining (skills s ! j)) (Fin 0)
               \<or> \<not> fle (manaCost (skills s ! j)) (currentMana s)"
    by blast
  from j have "CanUseSkill s sid
         = (fle (cooldownRemaining (skills s ! j)) (Fin 0)
            \<and> fle (manaCost (skills s ! j)) (currentMana s))"
    by (rule CanUseSkill_first)
  with no have "\<not> CanUseSkill s sid" by auto
  then show "UseSkill s sid = s" by (simp add: UseSkill_def UseSkill_from_refused)
qed

theorem UseSkill_commits_iff_CanUseSkill_witness:
  "CanUseSkill scenario_ledger 1
   \<and> flt (Fin 0) (cooldown (skills scenario_ledger ! 0))
   \<and> UseSkill scenario_ledger 1 = used_ledger
   \<and> \<not> fle (cooldownRemaining (skills used_ledger ! 0)) (Fin 0)
   \<and> \<not> CanUseSkill used_ledger 1
   \<and> UseSkill (UseSkill scenario_ledger 1) 1 = UseSkill scenario_ledger 1
   \<and> CanUseSkill (UpdateCooldowns used_ledger (Fin 5)) 1
   \<and> 2 \<notin> skillId ` set (skills scenario_ledger)
   \<and> UseSkill scenario_ledger 2 = scenario_ledger
   \<and> \<not> fle (manaCost (skills (scenario_ledger\<lparr>currentMana := Fin 10\<rparr>) ! 0))
            (currentMana (scenario_ledger\<lparr>currentMana := Fin 10\<rparr>))
   \<and> UseSkill (scenario_ledger\<lparr>currentMana := Fin 10\<rparr>) 1 = scenario_ledger\<lparr>currentMana := Fin 10\<rparr>"
  using UseSkill_commits_iff_CanUseSkill [of scenario_ledger 1]
    UseSkill_commits_iff_CanUseSkill [of scenario_ledger 2]
    UseSkill_commits_iff_CanUseSkill [of "scenario_ledger\<lparr>currentMana := Fin 10\<rparr>" 1]
  by (simp add: scenario_ledger_def scenario_skill_def used_ledger_def CanUseSkill_def
      UpdateCooldowns_def UseSkill_def UseSkill_from.simps float_of_int_def fsub_def
      std_max_def f32_eval)

lemma UpdateCooldowns_each_map:
  "UpdateCooldowns_each ks dt
     = map (\<lambda>k. k\<lparr>cooldownRemaining := std_max (Fin 0) (fsub (cooldownRemaining k) dt)\<rparr>) ks"
  by (induction ks) (simp_all add: rnd32_literals)

lemma skill_inv_tick:
  assumes "skill_inv k" and "is_float32 (cooldown k)" and "fle (Fin 0) dt"
  shows "skill_inv (k\<lparr>cooldownRemaining := std_max (Fin 0) (fsub (cooldownRemaining k) dt)\<rparr>)"
proof -
  let ?d = "fsub (cooldownRemaining k) dt"
  from assms have cr: "fle (Fin 0) (cooldownRemaining k)" "fle (cooldownRemaining k) (cooldown k)"
    by (simp_all add: skill_inv_def)
  then have zc: "fle (Fin 0) (cooldown k)" by (rule fle_trans)
  from cr assms have below: "?d = NaN \<or> fle ?d (cooldown k)" by (intro fsub_below)
  have "fle (Fin 0) (std_max (Fin 0) ?d)" by (rule std_max_lower) simp
  moreover have "fle (std_max (Fin 0) ?d) (cooldown k)"
  proof (cases "flt (Fin 0) ?d")
    case True
    then have "?d \<noteq> NaN" by auto
    with below True show ?thesis by (simp add: std_max_def)
  next
    case False
    with zc show ?thesis by (simp add: std_max_def)
  qed
  ultimately show ?thesis by (simp add: skill_inv_def)
qed

lemma UpdateCooldowns_inv:
  assumes "ledger_inv s" and "cooldowns_float32 s" and "fle (Fin 0) dt"
  shows "ledger_inv (UpdateCooldowns s dt) \<and> cooldowns_float32 (UpdateCooldowns s dt)"
  using assms
  by (auto simp add: ledger_inv_def cooldowns_float32_def UpdateCooldowns_def
      UpdateCooldowns_each_map list_all_iff skill_inv_tick)

lemma RegenerateMana_inv:
  assumes "ledger_inv s" and "fle (Fin 0) rate" and "fle (Fin 0) dt"
  shows "ledger_inv (RegenerateMana s rate dt)"
proof -
  let ?sum = "fadd (currentMana s) (fmul rate dt)"
  from assms have m: "fle (Fin 0) (currentMana s)" "fle (currentMana s) (maxMana s)"
    by (simp_all add: ledger_inv_def)
  then have zm: "fle (Fin 0) (maxMana s)" by (rule fle_trans)
  from m have mm: "fle (maxMana s) (maxMana s)" by (cases "maxMana s"; cases "currentMana s") simp_all
  have up: "fle (std_min (maxMana s) ?sum) (maxMana s)" using mm by (rule std_min_upper)
  have lo: "fle (Fin 0) (std_min (maxMana s) ?sum)"
  proof (cases "flt ?sum (maxMana s)")
    case True
    then have nn: "?sum \<noteq> NaN" by auto
    then have "fmul rate dt \<noteq> NaN" by (cases "currentMana s") auto
    with fmul_nonneg [OF assms(2,3)] have "fle (Fin 0) (fmul rate dt)" by simp
    with m(1) have "fle (Fin 0) ?sum" by (rule fadd_nonneg)
    with True show ?thesis by (simp add: std_min_def)
  next
    case False
    with zm show ?thesis by (simp add: std_min_def)
  qed
  from assms lo up show ?thesis by (simp add: ledger_inv_def RegenerateMana_def)
qed

lemma RegenerateMana_cooldowns: "cooldowns_float32 (RegenerateMana s rate dt) = cooldowns_float32 s"
  by (simp add: cooldowns_float32_def RegenerateMana_def)

lemma run_tick_inv:
  "ledger_inv s \<Longrightarrow> cooldowns_float32 s \<Longrightarrow> tick_ok c
     \<Longrightarrow> ledger_inv (run_tick s c) \<and> cooldowns_float32 (run_tick s c)"
  by (cases c) (simp_all add: UpdateCooldowns_inv RegenerateMana_inv RegenerateMana_cooldowns)

lemma run_ticks_inv:
  "ledger_inv s \<Longrightarrow> cooldowns_float32 s \<Longrightarrow> list_all tick_ok cs
     \<Longrightarrow> ledger_inv (run_ticks s cs)"
  by (induction cs arbitrary: s) (simp_all add: run_tick_inv)

text \<open>
  C6, as amended. For every ledger whose skills have a remaining cooldown from 0 to
  their cooldown, whose cooldowns are binary32 numbers and whose mana is from 0 to the
  maximum, and every elapsed time and rate that are at least 0: \<open>UpdateCooldowns\<close> sets
  each remaining cooldown to \<open>std::max\<close> of 0 and the binary32 difference of the
  remaining cooldown and the elapsed time and leaves the mana alone, \<open>RegenerateMana\<close>
  sets the mana to \<open>std::min\<close> of the maximum and the binary32 sum of the mana and the
  binary32 product of rate and elapsed time, both keep the invariant, and so does every
  sequence of such calls: no remaining cooldown falls below 0 and the mana never exceeds
  the maximum.
\<close>

theorem float_ticks_clamp_and_preserve:
  assumes "ledger_inv s" and "cooldowns_float32 s"
    and "fle (Fin 0) deltaTime" and "fle (Fin 0) rate"
  shows "skills (UpdateCooldowns s deltaTime)
           = map (\<lambda>k. k\<lparr>cooldownRemaining :=
                          std_max (Fin 0) (fsub (cooldownRemaining k) deltaTime)\<rparr>) (skills s)
     \<and> currentMana (UpdateCooldowns s deltaTime) = currentMana s
     \<and> maxMana (UpdateCooldowns s deltaTime) = maxMana s
     \<and> RegenerateMana s rate deltaTime
           = s\<lparr>currentMana := std_min (maxMana s) (fadd (currentMana s) (fmul rate deltaTime))\<rparr>
     \<and> ledger_inv (UpdateCooldowns s deltaTime)
     \<and> ledger_inv (RegenerateMana s rate deltaTime)
     \<and> (list_all tick_ok cs \<longrightarrow>
           ledger_inv (run_ticks s cs)
           \<and> (\<forall>k \<in> set (skills (run_ticks s cs)). fle (Fin 0) (cooldownRemaining k))
           \<and> fle (currentMana (run_ticks s cs)) (maxMana (run_ticks s cs)))"
proof -
  have seq: "list_all tick_ok cs \<longrightarrow>
           ledger_inv (run_ticks s cs)
           \<and> (\<forall>k \<in> set (skills (run_ticks s cs)). fle (Fin 0) (cooldownRemaining k))
           \<and> fle (currentMana (run_ticks s cs)) (maxMana (run_ticks s cs))"
  proof
    assume "list_all tick_ok cs"
    with assms(1,2) have "ledger_inv (run_ticks s cs)" by (rule run_ticks_inv)
    then show "ledger_inv (run_ticks s cs)
           \<and> (\<forall>k \<in> set (skills (run_ticks s cs)). fle (Fin 0) (cooldownRemaining k))
           \<and> fle (currentMana (run_ticks s cs)) (maxMana (run_ticks s cs))"
      by (simp add: ledger_inv_def list_all_iff skill_inv_def)
  qed
  have adv: "ledger_inv (UpdateCooldowns s deltaTime)"
    using assms by (simp add: UpdateCooldowns_inv)
  have reg: "ledger_inv (RegenerateMana s rate deltaTime)"
    using assms by (simp add: RegenerateMana_inv)
  have eqs: "skills (UpdateCooldowns s deltaTime)
           = map (\<lambda>k. k\<lparr>cooldownRemaining :=
                          std_max (Fin 0) (fsub (cooldownRemaining k) deltaTime)\<rparr>) (skills s)
     \<and> currentMana (UpdateCooldowns s deltaTime) = currentMana s
     \<and> maxMana (UpdateCooldowns s deltaTime) = maxMana s
     \<and> RegenerateMana s rate deltaTime
           = s\<lparr>currentMana := std_min (maxMana s) (fadd (currentMana s) (fmul rate deltaTime))\<rparr>"
    by (simp add: UpdateCooldowns_def UpdateCooldowns_each_map RegenerateMana_def)
  from eqs adv reg seq show ?thesis by blast
qed

theorem float_ticks_clamp_and_preserve_witness:
  "ledger_inv used_ledger \<and> cooldowns_float32 used_ledger
   \<and> fle (Fin 0) (Fin 2) \<and> fle (Fin 0) (Fin 15)
   \<and> list_all tick_ok [Advance (Fin 2), Regenerate (Fin 15) (Fin 2), Advance (Fin 5)]
   \<and> skills (UpdateCooldowns used_ledger (Fin 2)) = [scenario_skill\<lparr>cooldownRemaining := Fin 3\<rparr>]
   \<and> currentMana (RegenerateMana used_ledger (Fin 15) (Fin 2)) = Fin 100
   \<and> ledger_inv
        (run_ticks used_ledger [Advance (Fin 2), Regenerate (Fin 15) (Fin 2), Advance (Fin 5)])
   \<and> run_ticks used_ledger [Advance (Fin 2), Regenerate (Fin 15) (Fin 2), Advance (Fin 5)]
        = scenario_ledger"
  using float_ticks_clamp_and_preserve
    [of used_ledger "Fin 2" "Fin 15" "[Advance (Fin 2), Regenerate (Fin 15) (Fin 2), Advance (Fin 5)]"]
  by (simp add: scenario_ledger_def used_ledger_def scenario_skill_def ledger_inv_def
      skill_inv_def cooldowns_float32_def UpdateCooldowns_def RegenerateMana_def fsub_def
      std_max_def std_min_def f32_eval)

text \<open>
  With exact arithmetic the two formulas of the claim fail on a ledger that satisfies
  its hypotheses. From a remaining cooldown of 5 one tick of \<open>0.1f\<close> stores
  10276045 / 2097152, not 5 minus the elapsed time; from mana 80 a regeneration at rate
  \<open>0.1f\<close> over time 1 stores 10498867 / 131072, not 80 plus the rate.
\<close>

theorem exact_tick_formulas_counterexample:
  "ledger_inv used_ledger \<and> cooldowns_float32 used_ledger
   \<and> fle (Fin 0) (rnd32 0.1) \<and> fle (Fin 0) (Fin 1)
   \<and> map cooldownRemaining (skills (UpdateCooldowns used_ledger (rnd32 0.1)))
     = [Fin (10276045 / 2097152)]
   \<and> (10276045 / 2097152 :: real) \<noteq> max 0 (5 - 13421773 / 134217728)
   \<and> currentMana (RegenerateMana used_ledger (rnd32 0.1) (Fin 1)) = Fin (10498867 / 131072)
   \<and> (10498867 / 131072 :: real) \<noteq> min 100 (80 + 13421773 / 134217728 * 1)"
  by (simp add: used_ledger_def scenario_skill_def ledger_inv_def skill_inv_def
      cooldowns_float32_def UpdateCooldowns_def RegenerateMana_def fsub_def std_max_def
      std_min_def f32_eval)

subsection \<open>Mission progress\<close>

text \<open>
  C9, as amended. For every mission \<open>GetCompletionPercentage\<close> returns 0 when the
  target count is 0, without dividing (a division by the converted 0 would give NaN or
  an infinity), and otherwise the binary32 product by 100 of the binary32 quotient of
  the two counts converted to \<open>float\<close>; the converted divisor is 0 only when the
  target count is. \<open>IsMissionComplete\<close> holds exactly when the eliminated count is at
  least the target count. With target count 10 and 10 eliminated the mission is
  complete and the percentage is 100.0.
\<close>

theorem GetCompletionPercentage_float_guarded:
  "GetCompletionPercentage m =
     (if targetCount m = 0 then Fin 0
      else fmul (fdiv (float_of_int (targetsEliminated m)) (float_of_int (targetCount m)))
             (Fin 100))
   \<and> (float_of_int (targetCount m) = Fin 0) = (targetCount m = 0)
   \<and> fdiv x (float_of_int 0) \<in> {NaN, PInf, NInf}
   \<and> GetCompletionPercentage (m\<lparr>targetCount := 0\<rparr>) = Fin 0
   \<and> IsMissionComplete m = (targetsEliminated m \<ge> targetCount m)
   \<and> IsMissionComplete (m\<lparr>targetCount := 10, targetsEliminated := 10\<rparr>) = True
   \<and> GetCompletionPercentage (m\<lparr>targetCount := 10, targetsEliminated := 10\<rparr>) = Fin 100"
proof -
  have eq: "GetCompletionPercentage m =
     (if targetCount m = 0 then Fin 0
      else fmul (fdiv (float_of_int (targetsEliminated m)) (float_of_int (targetCount m)))
             (Fin 100))"
    by (simp add: GetCompletionPercentage_def rnd32_literals)
  have nz: "(float_of_int (targetCount m) = Fin 0) = (targetCount m = 0)"
    using rnd32_of_int_nonzero [of "targetCount m"]
    by (auto simp add: float_of_int_def rnd32_literals)
  have dz: "fdiv x (float_of_int 0) \<in> {NaN, PInf, NInf}"
    by (cases x) (simp_all add: float_of_int_0)
  have z: "GetCompletionPercentage (m\<lparr>targetCount := 0\<rparr>) = Fin 0"
    by (simp add: GetCompletionPercentage_def rnd32_literals)
  have c: "IsMissionComplete m = (targetsEliminated m \<ge> targetCount m)
     \<and> IsMissionComplete (m\<lparr>targetCount := 10, targetsEliminated := 10\<rparr>) = True"
    by (simp add: IsMissionComplete_def)
  have p: "GetCompletionPercentage (m\<lparr>targetCount := 10, targetsEliminated := 10\<rparr>) = Fin 100"
    by (simp add: GetCompletionPercentage_def float_of_int_def f32_eval)
  from eq nz dz z c p show ?thesis by blast
qed

text \<open>
  With exact arithmetic the claim fails: for 1 of 3 targets the code returns
  4369067 / 131072, about 33.3333359, not 100 / 3; for 16777216 of 16777217 it returns
  exactly 100 although the mission is not complete.
\<close>

theorem GetCompletionPercentage_exact_quotient_counterexample:
  "GetCompletionPercentage (mission_with 3 1) = Fin (4369067 / 131072)
   \<and> (4369067 / 131072 :: real) \<noteq> real_of_int 1 / real_of_int 3 * 100
   \<and> GetCompletionPercentage (mission_with 16777217 16777216) = Fin 100
   \<and> \<not> IsMissionComplete (mission_with 16777217 16777216)
   \<and> (100 :: real) \<noteq> real_of_int 16777216 / real_of_int 16777217 * 100"
  by (simp add: GetCompletionPercentage_def IsMissionComplete_def mission_with_def
      float_of_int_def f32_eval)

end
